theory Spec2Isabelle
  imports Main
begin

section \<open>Values, documents and responses\<close>

text \<open>
  The controller \<^verbatim>\<open>src/server/controllers/authController.js\<close> is embedded as
  functions from a request and a world (the user collection plus a log of the effects
  issued so far) to a response and the new world. A request field that may be missing
  (\<^verbatim>\<open>undefined\<close>) is a \<open>string option\<close>.
\<close>

text \<open>Exceptions thrown inside a handler; \<^verbatim>\<open>catchAsync\<close> forwards them to \<^verbatim>\<open>next\<close>.\<close>

datatype jsexn =
    JsonWebTokenError
  | TypeError
  | ValidationError
  | DuplicateKeyError
  | BcryptError
  | MailError

text \<open>The plain object \<^verbatim>\<open>{ name, email, password, passwordConfirm }\<close> of a registration.\<close>

record reg_user =
  reg_name :: "string option"
  reg_email :: "string option"
  reg_password :: "string option"
  reg_passwordConfirm :: "string option"

text \<open>A document of the \<^verbatim>\<open>User\<close> collection.\<close>

record account =
  uid :: nat
  name :: string
  email :: string
  password :: "string option"
  passwordConfirm :: "string option"
  passwordChangedAt :: "nat option"
  passwordResetToken :: "string option"
  passwordResetExpires :: "nat option"

text \<open>
  Payload of a verified verification token, and the claims \<^verbatim>\<open>{ id, iat }\<close> of a
  refresh token.
\<close>

record verify_payload =
  vp_user :: reg_user
  vp_verifyToken :: string

record refresh_payload =
  rp_id :: nat
  rp_iat :: nat

text \<open>
  What \<^verbatim>\<open>jwt.verify\<close> returns when it does not throw: the payload parsed as JSON, which
  is an object for the tokens this application signs, and a string, a boolean or a number
  for a signed payload that is not an object.
\<close>

datatype jwt_value =
    JObject refresh_payload
  | JString string
  | JBool bool
  | JNumber int

text \<open>The \<^verbatim>\<open>data\<close> object handed to the \<^verbatim>\<open>Email\<close> class.\<close>

record mail_data =
  md_user_name :: "string option"
  md_token :: string
  md_resetURL :: string

datatype sign_kind = Verification | Access | Refresh

datatype event =
    Signed sign_kind string
  | Mailed_activation mail_data
  | Mailed_reset mail_data
  | Created account
  | Saved account

record world =
  users :: "account list"
  trace :: "event list"

datatype payload =
    Activation_pending string string
  | Session_started string account
  | Logged_out
  | Tokens_refreshed string string
  | Password_updated account
  | Token_sent
  | Password_reset_done

datatype response =
    AppError string nat
  | Thrown jsexn
  | Json nat payload

text \<open>
  The collaborators the controller imports: \<^verbatim>\<open>jsonwebtoken\<close> with the secrets of
  the process environment, the signing helpers of \<^verbatim>\<open>utils/sendToken.js\<close>, the
  password comparison and hashing of the user model, SHA-256, the schema rules and the
  \<^verbatim>\<open>Email\<close> class. A mail function returns \<open>False\<close> when the delivery throws.
\<close>

record env =
  jwt_sign_verification :: "reg_user \<Rightarrow> string \<Rightarrow> string"
  jwt_verify_verification :: "string option \<Rightarrow> jsexn + verify_payload"
  jwt_verify_refresh :: "string option \<Rightarrow> jsexn + jwt_value"
  SignInAccessToken :: "nat \<Rightarrow> string \<Rightarrow> string"
  SignInRefreshToken :: "nat \<Rightarrow> string \<Rightarrow> string"
  correctPassword :: "string \<Rightarrow> string option \<Rightarrow> jsexn + bool"
  hashPassword :: "string \<Rightarrow> string"
  sha256_hex :: "string \<Rightarrow> string"
  schema_ok :: "string \<Rightarrow> string \<Rightarrow> string \<Rightarrow> bool"
  resetTokenLifetime :: nat
  activateRegistration :: "reg_user \<Rightarrow> mail_data \<Rightarrow> bool"
  sendPasswordReset :: "account \<Rightarrow> mail_data \<Rightarrow> bool"

section \<open>JavaScript helpers\<close>

definition truthy :: "string option \<Rightarrow> bool" where
  "truthy v = (case v of None \<Rightarrow> False | Some s \<Rightarrow> s \<noteq> [])"

text \<open>A value inside a template literal: \<^verbatim>\<open>undefined\<close> prints as that word.\<close>

definition tmpl :: "string option \<Rightarrow> string" where
  "tmpl v = (case v of None \<Rightarrow> ''undefined'' | Some s \<Rightarrow> s)"

text \<open>
  Truthiness of a decoded payload: every object is truthy; the empty string,
  \<^verbatim>\<open>false\<close> and \<^verbatim>\<open>0\<close> are falsy.
\<close>

definition truthy_value :: "jwt_value \<Rightarrow> bool" where
  "truthy_value decoded =
     (case decoded of
        JObject c \<Rightarrow> True
      | JString s \<Rightarrow> s \<noteq> []
      | JBool b \<Rightarrow> b
      | JNumber n \<Rightarrow> n \<noteq> 0)"

text \<open>
  The properties \<^verbatim>\<open>id\<close> and \<^verbatim>\<open>iat\<close> of a decoded payload: a string, a boolean
  and a number have neither.
\<close>

definition claims_of :: "jwt_value \<Rightarrow> refresh_payload option" where
  "claims_of decoded = (case decoded of JObject c \<Rightarrow> Some c | _ \<Rightarrow> None)"

text \<open>\<^verbatim>\<open>a != b\<close> on two strings compares them character by character, without coercion.\<close>

definition loose_ne :: "string \<Rightarrow> string \<Rightarrow> bool" where
  "loose_ne a b = (a \<noteq> b)"

definition startsWith :: "string \<Rightarrow> string \<Rightarrow> bool" where
  "startsWith s p = (take (length p) s = p)"

fun split_on :: "char \<Rightarrow> string \<Rightarrow> string list" where
  "split_on c [] = [[]]"
| "split_on c (x # xs) =
     (if x = c then [] # split_on c xs
      else (case split_on c xs of
              [] \<Rightarrow> [[x]]
            | y # ys \<Rightarrow> (x # y) # ys))"

definition nth_opt :: "'a list \<Rightarrow> nat \<Rightarrow> 'a option" where
  "nth_opt xs i = (if i < length xs then Some (xs ! i) else None)"

text \<open>
  Lines 66 to 73 of the controller: the bearer credential is the second piece of the
  \<^verbatim>\<open>authorization\<close> header split at spaces, and stays \<^verbatim>\<open>undefined\<close> otherwise.
\<close>

definition bearer_token :: "string option \<Rightarrow> string option" where
  "bearer_token authorization =
     (case authorization of
        None \<Rightarrow> None
      | Some h \<Rightarrow>
          if h \<noteq> [] \<and> startsWith h ''Bearer''
          then nth_opt (split_on (CHR '' '') h) 1
          else None)"

section \<open>The credential store\<close>

definition findOne_email :: "account list \<Rightarrow> string option \<Rightarrow> account option" where
  "findOne_email us e = find (\<lambda>a. Some (email a) = e) us"

definition findById :: "account list \<Rightarrow> nat \<Rightarrow> account option" where
  "findById us i = find (\<lambda>a. uid a = i) us"

text \<open>
  \<^verbatim>\<open>User.findOne({ passwordResetToken: h, passwordResetExpires: { $gt: now } })\<close>
\<close>

definition findOne_reset :: "account list \<Rightarrow> string \<Rightarrow> nat \<Rightarrow> account option" where
  "findOne_reset us h now =
     find (\<lambda>a. passwordResetToken a = Some h \<and>
                (case passwordResetExpires a of None \<Rightarrow> False | Some t \<Rightarrow> now < t)) us"

definition fresh_id :: "account list \<Rightarrow> nat" where
  "fresh_id us = Suc (foldr max (map uid us) 0)"

definition User_create ::
  "env \<Rightarrow> reg_user \<Rightarrow> account list \<Rightarrow> jsexn + (account \<times> account list)" where
  \<comment> \<open>Modelled from the spec: \<^verbatim>\<open>models/userModel.js\<close> is missing. The store hashes
      the password, validates the fields and the confirmation, keeps emails unique and
      never stores the confirmation.\<close>
  "User_create E f us =
     (case (reg_name f, reg_email f, reg_password f) of
        (Some n, Some e, Some p) \<Rightarrow>
          if reg_passwordConfirm f \<noteq> Some p \<or> \<not> schema_ok E n e p then Inl ValidationError
          else if e \<in> set (map email us) then Inl DuplicateKeyError
          else
            let a = \<lparr> uid = fresh_id us, name = n, email = e,
                      password = Some (hashPassword E p), passwordConfirm = None,
                      passwordChangedAt = None, passwordResetToken = None,
                      passwordResetExpires = None \<rparr>
            in Inr (a, us @ [a])
      | _ \<Rightarrow> Inl ValidationError)"

definition password_modified :: "account list \<Rightarrow> account \<Rightarrow> bool" where
  "password_modified us user =
     (case findById us (uid user) of
        None \<Rightarrow> True
      | Some old \<Rightarrow> password old \<noteq> password user)"

definition save ::
  "env \<Rightarrow> nat \<Rightarrow> bool \<Rightarrow> account \<Rightarrow> account list \<Rightarrow> jsexn + (account \<times> account list)" where
  \<comment> \<open>Modelled from the spec: \<^verbatim>\<open>models/userModel.js\<close> is missing. A validating
      save checks the confirmation and the schema rules; a save of a changed password
      hashes it, drops the confirmation and stamps \<^verbatim>\<open>passwordChangedAt\<close>; the document
      replaces the stored one of the same id.\<close>
  "save E now validateBeforeSave user us =
     (if validateBeforeSave \<and>
         (password user = None \<or> passwordConfirm user \<noteq> password user \<or>
          \<not> schema_ok E (name user) (email user) (tmpl (password user)))
      then Inl ValidationError
      else
        let stored =
              (if password_modified us user
               then user \<lparr> password := map_option (hashPassword E) (password user),
                           passwordConfirm := None,
                           passwordChangedAt := Some now \<rparr>
               else user)
        in Inr (stored, map (\<lambda>a. if uid a = uid user then stored else a) us))"

definition createPasswordResetToken :: "env \<Rightarrow> string \<Rightarrow> nat \<Rightarrow> account \<Rightarrow> string \<times> account" where
  \<comment> \<open>Modelled from the spec: \<^verbatim>\<open>models/userModel.js\<close> is missing. The raw token is
      the random value; the document receives its hash and an absolute expiry, in memory.\<close>
  "createPasswordResetToken E rnd now user =
     (rnd, user \<lparr> passwordResetToken := Some (sha256_hex E rnd),
                  passwordResetExpires := Some (now + resetTokenLifetime E) \<rparr>)"

definition changedPasswordAfter :: "account \<Rightarrow> nat \<Rightarrow> bool" where
  \<comment> \<open>Modelled from the spec: \<^verbatim>\<open>models/userModel.js\<close> is missing. True when the
      account's \<^verbatim>\<open>passwordChangedAt\<close> is later than the token's issued-at.\<close>
  "changedPasswordAfter user iat =
     (case passwordChangedAt user of None \<Rightarrow> False | Some t \<Rightarrow> iat < t)"

definition log_event :: "event \<Rightarrow> world \<Rightarrow> world" where
  "log_event e w = w \<lparr> trace := trace w @ [e] \<rparr>"

definition sendToken :: "env \<Rightarrow> account \<Rightarrow> nat \<Rightarrow> world \<Rightarrow> response \<times> world" where
  \<comment> \<open>Modelled from the spec: \<^verbatim>\<open>utils/sendToken.js\<close> is missing. Both tokens are
      issued for the account's id and the body carries the access token and the account
      without its password.\<close>
  "sendToken E user statusCode w =
     (let accessToken = SignInAccessToken E (uid user) ''5m'';
          refreshToken = SignInRefreshToken E (uid user) ''3d''
      in (Json statusCode (Session_started accessToken (user \<lparr> password := None \<rparr>)),
          log_event (Signed Refresh refreshToken) (log_event (Signed Access accessToken) w)))"

section \<open>The controller\<close>

subsection \<open>createVerificationToken and verifyAccount\<close>

text \<open>\<open>rnd\<close> is what \<^verbatim>\<open>crypto.randomBytes(32).toString("hex")\<close> returns in this call.\<close>

definition createVerificationToken :: "env \<Rightarrow> string \<Rightarrow> reg_user \<Rightarrow> string \<times> string" where
  "createVerificationToken E rnd user =
     (let verifyToken = rnd;
          token = jwt_sign_verification E user verifyToken
      in (token, verifyToken))"

record activate_req =
  ar_name :: "string option"
  ar_email :: "string option"
  ar_password :: "string option"
  ar_passwordConfirm :: "string option"
  ar_protocol :: string
  ar_host :: "string option"

definition verifyAccount :: "env \<Rightarrow> string \<Rightarrow> activate_req \<Rightarrow> world \<Rightarrow> response \<times> world" where
  "verifyAccount E rnd req w =
     (case findOne_email (users w) (ar_email req) of
        Some checkEmail \<Rightarrow> (AppError ''Email Already exists'' 400, w)
      | None \<Rightarrow>
          let user = \<lparr> reg_name = ar_name req, reg_email = ar_email req,
                       reg_password = ar_password req,
                       reg_passwordConfirm = ar_passwordConfirm req \<rparr>;
              (token, verifyToken) = createVerificationToken E rnd user;
              w1 = log_event (Signed Verification token) w;
              data = \<lparr> md_user_name = reg_name user, md_token = verifyToken,
                       md_resetURL = ar_protocol req @ ''://'' @ tmpl (ar_host req) @
                                     ''/api/v1/users/signup/'' @ verifyToken \<rparr>
          in if activateRegistration E user data
             then (Json 201 (Activation_pending
                     (''Please check your email: '' @ tmpl (reg_email user) @
                      '' to activate your account!'') token),
                   log_event (Mailed_activation data) w1)
             else (Thrown MailError, w1))"

subsection \<open>signUp\<close>

record signup_req =
  sr_authorization :: "string option"
  sr_verify_token :: string

definition signUp :: "env \<Rightarrow> signup_req \<Rightarrow> world \<Rightarrow> response \<times> world" where
  "signUp E req w =
     (let verification_token = bearer_token (sr_authorization req);
          verify_token = sr_verify_token req
      in case jwt_verify_verification E verification_token of
           Inl ex \<Rightarrow> (Thrown ex, w)
         | Inr newUser \<Rightarrow>
             if loose_ne (vp_verifyToken newUser) verify_token
             then (AppError ''Invalid token. Please try again'' 401, w)
             else (case User_create E (vp_user newUser) (users w) of
                     Inl ex \<Rightarrow> (Thrown ex, w)
                   | Inr (user, us) \<Rightarrow>
                       sendToken E user 201 (log_event (Created user) (w \<lparr> users := us \<rparr>))))"

subsection \<open>login and logout\<close>

record login_req =
  lr_email :: "string option"
  lr_password :: "string option"

definition login :: "env \<Rightarrow> login_req \<Rightarrow> world \<Rightarrow> response \<times> world" where
  "login E req w =
     (if \<not> truthy (lr_email req) \<or> \<not> truthy (lr_password req)
      then (AppError ''Please provide email and password!'' 400, w)
      else (case findOne_email (users w) (lr_email req) of
              None \<Rightarrow> (AppError ''Incorrect email or password'' 401, w)
            | Some user \<Rightarrow>
                (case correctPassword E (tmpl (lr_password req)) (password user) of
                   Inl ex \<Rightarrow> (Thrown ex, w)
                 | Inr ok \<Rightarrow>
                     if \<not> ok then (AppError ''Incorrect email or password'' 401, w)
                     else sendToken E user 200 w)))"

definition logout :: "world \<Rightarrow> response \<times> world" where
  "logout w = (Json 200 Logged_out, w)"

subsection \<open>refreshToken\<close>

text \<open>
  A truthy payload without an \<^verbatim>\<open>id\<close> makes \<^verbatim>\<open>User.findById(undefined)\<close>, which
  finds no document.
\<close>

definition refreshToken :: "env \<Rightarrow> string option \<Rightarrow> world \<Rightarrow> response \<times> world" where
  "refreshToken E refresh_token w =
     (case jwt_verify_refresh E refresh_token of
        Inl ex \<Rightarrow> (Thrown ex, w)
      | Inr decoded \<Rightarrow>
          if \<not> truthy_value decoded then (AppError ''Could not refresh token'' 400, w)
          else (case claims_of decoded of
                  None \<Rightarrow> (AppError ''Please login to access these resources!'' 400, w)
                | Some c \<Rightarrow>
                    (case findById (users w) (rp_id c) of
                       None \<Rightarrow> (AppError ''Please login to access these resources!'' 400, w)
                     | Some currentUser \<Rightarrow>
                         if changedPasswordAfter currentUser (rp_iat c)
                         then (AppError ''User recently changed password! Please log in again.''
                                 401, w)
                         else
                           let accessToken = SignInAccessToken E (uid currentUser) ''5m'';
                               refreshToken = SignInRefreshToken E (uid currentUser) ''3d''
                           in (Json 200 (Tokens_refreshed accessToken refreshToken),
                               log_event (Signed Refresh refreshToken)
                                 (log_event (Signed Access accessToken) w)))))"

subsection \<open>updatePassword\<close>

record update_req =
  ur_oldPassword :: "string option"
  ur_newPassword :: "string option"
  ur_passwordConfirm :: "string option"
  ur_user_id :: nat

text \<open>\<^verbatim>\<open>user?.password\<close>: \<^verbatim>\<open>undefined\<close> for a missing document or a missing field.\<close>

definition optional_password :: "account option \<Rightarrow> string option" where
  "optional_password user = (case user of None \<Rightarrow> None | Some u \<Rightarrow> password u)"

definition updatePassword :: "env \<Rightarrow> nat \<Rightarrow> update_req \<Rightarrow> world \<Rightarrow> response \<times> world" where
  "updatePassword E now req w =
     (if \<not> truthy (ur_oldPassword req) \<or> \<not> truthy (ur_newPassword req)
      then (AppError ''Please provide your old and new passwords'' 400, w)
      else if \<not> truthy (ur_passwordConfirm req)
      then (AppError ''Please confirm your password'' 400, w)
      else
        let user = findById (users w) (ur_user_id req)
        in if optional_password user = Some ''undefined''
           then (AppError ''Invalid user'' 400, w)
           else (case user of
                   None \<Rightarrow> (Thrown TypeError, w)
                 | Some u \<Rightarrow>
                     (case correctPassword E (tmpl (ur_oldPassword req)) (password u) of
                        Inl ex \<Rightarrow> (Thrown ex, w)
                      | Inr ok \<Rightarrow>
                          if \<not> ok then (AppError ''Your current password is wrong.'' 401, w)
                          else (case save E now True
                                       (u \<lparr> password := ur_newPassword req,
                                            passwordConfirm := ur_passwordConfirm req \<rparr>)
                                       (users w) of
                                  Inl ex \<Rightarrow> (Thrown ex, w)
                                | Inr (stored, us) \<Rightarrow>
                                    (Json 200 (Password_updated stored),
                                     log_event (Saved stored) (w \<lparr> users := us \<rparr>))))))"

subsection \<open>forgotPassword\<close>

record forgot_req =
  fr_email :: "string option"
  fr_protocol :: string
  fr_host :: "string option"

definition forgotPassword ::
  "env \<Rightarrow> string \<Rightarrow> nat \<Rightarrow> forgot_req \<Rightarrow> world \<Rightarrow> response \<times> world" where
  "forgotPassword E rnd now req w =
     (case findOne_email (users w) (fr_email req) of
        None \<Rightarrow> (AppError ''There is no user with email address.'' 404, w)
      | Some user \<Rightarrow>
          let (resetToken, user1) = createPasswordResetToken E rnd now user
          in (case save E now False user1 (users w) of
                Inl ex \<Rightarrow> (Thrown ex, w)
              | Inr (stored1, us1) \<Rightarrow>
                  let w1 = log_event (Saved stored1) (w \<lparr> users := us1 \<rparr>);
                      data = \<lparr> md_user_name = Some (name stored1), md_token = resetToken,
                               md_resetURL = fr_protocol req @ ''://'' @ tmpl (fr_host req) @
                                             ''/api/v1/users/reset-password/'' @ resetToken \<rparr>
                  in if sendPasswordReset E stored1 data
                     then (Json 200 Token_sent, log_event (Mailed_reset data) w1)
                     else
                       let user2 = stored1 \<lparr> passwordResetToken := None,
                                              passwordResetExpires := None \<rparr>
                       in (case save E now False user2 (users w1) of
                             Inl ex \<Rightarrow> (Thrown ex, w1)
                           | Inr (stored2, us2) \<Rightarrow>
                               (AppError ''There was an error sending the email. Try again later!'' 500,
                                log_event (Saved stored2) (w1 \<lparr> users := us2 \<rparr>)))))"

subsection \<open>resetPassword\<close>

record reset_req =
  rr_token :: string
  rr_password :: "string option"
  rr_passwordConfirm :: "string option"

definition resetPassword :: "env \<Rightarrow> nat \<Rightarrow> reset_req \<Rightarrow> world \<Rightarrow> response \<times> world" where
  "resetPassword E now req w =
     (let hashedToken = sha256_hex E (rr_token req)
      in case findOne_reset (users w) hashedToken now of
           None \<Rightarrow> (AppError ''Token is invalid or has expired'' 400, w)
         | Some user \<Rightarrow>
             (case save E now True
                     (user \<lparr> password := rr_password req,
                             passwordConfirm := rr_passwordConfirm req,
                             passwordResetToken := None,
                             passwordResetExpires := None \<rparr>)
                     (users w) of
                Inl ex \<Rightarrow> (Thrown ex, w)
              | Inr (stored, us) \<Rightarrow>
                  (Json 200 Password_reset_done,
                   log_event (Saved stored) (w \<lparr> users := us \<rparr>))))"

section \<open>Observations on the effect log\<close>

definition is_persist :: "event \<Rightarrow> bool" where
  "is_persist e = (case e of Created a \<Rightarrow> True | Saved a \<Rightarrow> True | _ \<Rightarrow> False)"

definition is_sign_or_mail :: "event \<Rightarrow> bool" where
  "is_sign_or_mail e =
     (case e of Signed k t \<Rightarrow> True | Mailed_activation d \<Rightarrow> True | Mailed_reset d \<Rightarrow> True
      | _ \<Rightarrow> False)"

section \<open>A concrete environment and store\<close>

definition demo_reg :: reg_user where
  "demo_reg = \<lparr> reg_name = Some ''Cleo'', reg_email = Some ''c@x.com'',
                reg_password = Some ''secret123'', reg_passwordConfirm = Some ''secret123'' \<rparr>"

definition demo_env :: env where
  "demo_env =
     \<lparr> jwt_sign_verification = (\<lambda>u n. ''v.'' @ n),
       jwt_verify_verification =
         (\<lambda>t. case t of
                 None \<Rightarrow> Inl JsonWebTokenError
               | Some s \<Rightarrow>
                   if startsWith s ''v.''
                   then Inr \<lparr> vp_user = demo_reg, vp_verifyToken = drop 2 s \<rparr>
                   else Inl JsonWebTokenError),
       jwt_verify_refresh =
         (\<lambda>t. if t = Some ''r1'' then Inr (JObject \<lparr> rp_id = 1, rp_iat = 50 \<rparr>)
               else if t = Some ''r2'' then Inr (JObject \<lparr> rp_id = 2, rp_iat = 50 \<rparr>)
               else if t = Some ''f0'' then Inr (JBool False)
               else Inl JsonWebTokenError),
       SignInAccessToken = (\<lambda>i ttl. ''a.'' @ ttl),
       SignInRefreshToken = (\<lambda>i ttl. ''r.'' @ ttl),
       correctPassword =
         (\<lambda>c h. case h of None \<Rightarrow> Inl BcryptError | Some s \<Rightarrow> Inr (s = ''#'' @ c)),
       hashPassword = (\<lambda>p. ''#'' @ p),
       sha256_hex = (\<lambda>s. ''h'' @ s),
       schema_ok = (\<lambda>n e p. 8 \<le> length p),
       resetTokenLifetime = 600,
       activateRegistration = (\<lambda>u d. True),
       sendPasswordReset = (\<lambda>u d. email u \<noteq> ''b@x.com'') \<rparr>"

definition ada :: account where
  "ada = \<lparr> uid = 1, name = ''Ada'', email = ''a@x.com'', password = Some ''#secret123'',
          passwordConfirm = None, passwordChangedAt = Some 100,
          passwordResetToken = Some ''hR1'', passwordResetExpires = Some 1000 \<rparr>"

definition bob :: account where
  "bob = \<lparr> uid = 2, name = ''Bob'', email = ''b@x.com'', password = Some ''#hunter2hunter2'',
          passwordConfirm = None, passwordChangedAt = None,
          passwordResetToken = None, passwordResetExpires = None \<rparr>"

definition demo_world :: world where
  "demo_world = \<lparr> users = [ada, bob], trace = [] \<rparr>"

text \<open>An account whose stored password field is absent.\<close>

definition eve :: account where
  "eve = \<lparr> uid = 3, name = ''Eve'', email = ''e@x.com'', password = None,
          passwordConfirm = None, passwordChangedAt = None,
          passwordResetToken = None, passwordResetExpires = None \<rparr>"

definition eve_world :: world where
  "eve_world = \<lparr> users = [ada, bob, eve], trace = [] \<rparr>"

definition demo_reset_req :: reset_req where
  "demo_reset_req = \<lparr> rr_token = ''R1'', rr_password = Some ''newsecret1'',
                      rr_passwordConfirm = Some ''newsecret1'' \<rparr>"

definition after_reset :: world where
  "after_reset = snd (resetPassword demo_env 500 demo_reset_req demo_world)"

definition demo_signup_req :: signup_req where
  "demo_signup_req = \<lparr> sr_authorization = Some ''Bearer v.abc'', sr_verify_token = ''abd'' \<rparr>"

definition demo_forgot_req :: forgot_req where
  "demo_forgot_req = \<lparr> fr_email = Some ''b@x.com'', fr_protocol = ''https'',
                       fr_host = Some ''t.app'' \<rparr>"

definition demo_activate_req :: activate_req where
  "demo_activate_req = \<lparr> ar_name = Some ''Ada'', ar_email = Some ''a@x.com'',
                         ar_password = Some ''secret123'', ar_passwordConfirm = Some ''secret123'',
                         ar_protocol = ''https'', ar_host = Some ''t.app'' \<rparr>"

definition demo_update_req :: "nat \<Rightarrow> update_req" where
  "demo_update_req i = \<lparr> ur_oldPassword = Some ''old'', ur_newPassword = Some ''newpassword'',
                         ur_passwordConfirm = Some ''newpassword'', ur_user_id = i \<rparr>"

section \<open>Facts about the store\<close>

lemmas demo_defs =
  demo_env_def demo_world_def ada_def bob_def eve_def eve_world_def demo_reg_def

lemma findOne_email_member:
  "e \<in> email ` set us \<Longrightarrow> \<exists>a. findOne_email us (Some e) = Some a"
  unfolding findOne_email_def by (induction us) auto

lemma find_distinct_uid:
  "distinct (map uid us) \<Longrightarrow> find P us = Some u \<Longrightarrow> find (\<lambda>a. uid a = uid u) us = Some u"
proof (induction us)
  case Nil
  then show ?case by simp
next
  case (Cons a us)
  show ?case
  proof (cases "P a")
    case True
    with Cons.prems show ?thesis by simp
  next
    case False
    with Cons.prems have f: "find P us = Some u" and d: "distinct (map uid us)"
      and n: "uid a \<notin> uid ` set us" by auto
    from f have "u \<in> set us" by (auto simp: find_Some_iff)
    with n have "uid a \<noteq> uid u" by auto
    with Cons.IH [OF d f] show ?thesis by simp
  qed
qed

lemma find_uid_replace:
  "find (\<lambda>a. uid a = i) us = Some u \<Longrightarrow> uid s = i \<Longrightarrow>
   find (\<lambda>a. uid a = i) (map (\<lambda>a. if uid a = i then s else a) us) = Some s"
  by (induction us) (auto split: if_splits)

lemma replace_twice:
  "uid s1 = i \<Longrightarrow>
   map (\<lambda>a. if uid a = i then s2 else a) (map (\<lambda>a. if uid a = i then s1 else a) us) =
   map (\<lambda>a. if uid a = i then s2 else a) us"
  by (induction us) auto

lemma save_Inr_shape:
  assumes "save E now v user us = Inr (stored, us')"
  shows "uid stored = uid user \<and> passwordResetToken stored = passwordResetToken user \<and>
         passwordResetExpires stored = passwordResetExpires user \<and>
         us' = map (\<lambda>a. if uid a = uid user then stored else a) us"
  using assms by (auto simp: save_def Let_def split: if_splits)

lemma findOne_reset_Some:
  assumes "findOne_reset us h now = Some u"
  shows "u \<in> set us \<and> passwordResetToken u = Some h"
  using assms unfolding findOne_reset_def by (auto simp: find_Some_iff)

lemma findOne_reset_None:
  assumes "\<forall>a\<in>set us. passwordResetToken a \<noteq> Some h"
  shows "findOne_reset us h now = None"
  using assms unfolding findOne_reset_def by (auto simp: find_None_iff)

section \<open>Completing a signup\<close>

text \<open>
  C1. When the verification token verifies and the nonce inside its payload differs from
  the nonce of the URL path, \<open>signUp\<close> answers with the error
  \<^verbatim>\<open>Invalid token. Please try again\<close> (401) and leaves the world as it was: no account
  is created and nothing is logged.
\<close>

theorem signUp_nonce_mismatch:
  assumes "jwt_verify_verification E (bearer_token (sr_authorization req)) = Inr newUser"
      and "vp_verifyToken newUser \<noteq> sr_verify_token req"
    shows "signUp E req w = (AppError ''Invalid token. Please try again'' 401, w)"
  using assms by (simp add: signUp_def loose_ne_def)

theorem signUp_nonce_mismatch_witness:
  "jwt_verify_verification demo_env (bearer_token (sr_authorization demo_signup_req)) =
     Inr \<lparr> vp_user = demo_reg, vp_verifyToken = ''abc'' \<rparr> \<and>
   vp_verifyToken \<lparr> vp_user = demo_reg, vp_verifyToken = ''abc'' \<rparr> \<noteq>
     sr_verify_token demo_signup_req \<and>
   signUp demo_env demo_signup_req demo_world =
     (AppError ''Invalid token. Please try again'' 401, demo_world)"
proof -
  have v: "jwt_verify_verification demo_env (bearer_token (sr_authorization demo_signup_req)) =
     Inr \<lparr> vp_user = demo_reg, vp_verifyToken = ''abc'' \<rparr>"
    by (simp add: demo_env_def demo_signup_req_def bearer_token_def startsWith_def nth_opt_def)
  have n: "vp_verifyToken \<lparr> vp_user = demo_reg, vp_verifyToken = ''abc'' \<rparr> \<noteq>
           sr_verify_token demo_signup_req"
    by (simp add: demo_signup_req_def)
  from signUp_nonce_mismatch [OF v n, of demo_world] v n show ?thesis by blast
qed

section \<open>Resetting a password\<close>

text \<open>
  C2. A reset token is used once. When \<open>resetPassword\<close> succeeds, the account it found
  has \<^verbatim>\<open>passwordResetToken\<close> and \<^verbatim>\<open>passwordResetExpires\<close> cleared in the persisted
  store, and every later \<open>resetPassword\<close> with the same raw token, at any time and with
  any new password, answers \<^verbatim>\<open>Token is invalid or has expired\<close> (400) and changes
  nothing. The raw token is taken to belong to one account: the accounts holding its hash
  share one id.
\<close>

theorem resetPassword_single_use:
  assumes ok: "resetPassword E now req w = (Json 200 Password_reset_done, w')"
      and uniq: "\<forall>a\<in>set (users w). \<forall>b\<in>set (users w).
                   passwordResetToken a = Some (sha256_hex E (rr_token req)) \<and>
                   passwordResetToken b = Some (sha256_hex E (rr_token req)) \<longrightarrow> uid a = uid b"
      and same: "rr_token req' = rr_token req"
    shows "(\<exists>user. findOne_reset (users w) (sha256_hex E (rr_token req)) now = Some user \<and>
              (\<forall>a\<in>set (users w'). uid a = uid user \<longrightarrow>
                 passwordResetToken a = None \<and> passwordResetExpires a = None)) \<and>
           resetPassword E now' req' w' = (AppError ''Token is invalid or has expired'' 400, w')"
proof -
  let ?h = "sha256_hex E (rr_token req)"
  from ok obtain user where fnd: "findOne_reset (users w) ?h now = Some user"
    by (auto simp: resetPassword_def Let_def split: option.splits)
  let ?doc = "user \<lparr> password := rr_password req, passwordConfirm := rr_passwordConfirm req,
                     passwordResetToken := None, passwordResetExpires := None \<rparr>"
  from ok fnd obtain stored us where sv: "save E now True ?doc (users w) = Inr (stored, us)"
    and w': "w' = log_event (Saved stored) (w \<lparr> users := us \<rparr>)"
    by (auto simp: resetPassword_def Let_def split: sum.splits)
  from save_Inr_shape [OF sv] have st: "uid stored = uid user"
    "passwordResetToken stored = None" "passwordResetExpires stored = None"
    and us: "us = map (\<lambda>a. if uid a = uid user then stored else a) (users w)" by simp_all
  have usw: "users w' = us" using w' by (simp add: log_event_def)
  from findOne_reset_Some [OF fnd] have uin: "user \<in> set (users w)"
    and utok: "passwordResetToken user = Some ?h" by simp_all
  have cleared: "\<forall>a\<in>set (users w'). uid a = uid user \<longrightarrow>
                   passwordResetToken a = None \<and> passwordResetExpires a = None"
    using st unfolding usw us by auto
  have gone: "\<forall>a\<in>set (users w'). passwordResetToken a \<noteq> Some ?h"
  proof
    fix a assume a: "a \<in> set (users w')"
    show "passwordResetToken a \<noteq> Some ?h"
    proof (cases "uid a = uid user")
      case True
      with cleared a show ?thesis by simp
    next
      case False
      with a st(1) have "a \<in> set (users w)" unfolding usw us by (auto split: if_splits)
      with uniq uin utok False show ?thesis by blast
    qed
  qed
  from findOne_reset_None [OF gone]
  have "resetPassword E now' req' w' = (AppError ''Token is invalid or has expired'' 400, w')"
    by (simp add: resetPassword_def same)
  with fnd cleared show ?thesis by blast
qed

theorem resetPassword_single_use_witness:
  "resetPassword demo_env 500 demo_reset_req demo_world =
     (Json 200 Password_reset_done, after_reset) \<and>
   users after_reset =
     [ada \<lparr> password := Some ''#newsecret1'', passwordChangedAt := Some 500,
            passwordResetToken := None, passwordResetExpires := None \<rparr>, bob] \<and>
   resetPassword demo_env 501 demo_reset_req after_reset =
     (AppError ''Token is invalid or has expired'' 400, after_reset)"
proof -
  have ok: "resetPassword demo_env 500 demo_reset_req demo_world =
              (Json 200 Password_reset_done, after_reset)"
    by (simp add: after_reset_def resetPassword_def demo_reset_req_def demo_defs
          findOne_reset_def save_def password_modified_def findById_def tmpl_def
          log_event_def Let_def)
  have us: "users after_reset =
     [ada \<lparr> password := Some ''#newsecret1'', passwordChangedAt := Some 500,
            passwordResetToken := None, passwordResetExpires := None \<rparr>, bob]"
    by (simp add: after_reset_def resetPassword_def demo_reset_req_def demo_defs
          findOne_reset_def save_def password_modified_def findById_def tmpl_def
          log_event_def Let_def)
  have uniq: "\<forall>a\<in>set (users demo_world). \<forall>b\<in>set (users demo_world).
      passwordResetToken a = Some (sha256_hex demo_env (rr_token demo_reset_req)) \<and>
      passwordResetToken b = Some (sha256_hex demo_env (rr_token demo_reset_req)) \<longrightarrow>
      uid a = uid b"
    by (simp add: demo_defs demo_reset_req_def)
  from resetPassword_single_use [OF ok uniq refl, of 501] ok us show ?thesis by blast
qed

section \<open>Refreshing a session\<close>

text \<open>
  C3. For a refresh token that verifies and whose subject exists, \<open>refreshToken\<close>
  answers \<^verbatim>\<open>User recently changed password! Please log in again.\<close> (401) when the
  account's \<^verbatim>\<open>passwordChangedAt\<close> is later than the token's issued-at, and otherwise
  succeeds with status 200 and a new access and refresh token for that account.
\<close>

theorem refreshToken_freshness:
  assumes "jwt_verify_refresh E tok = Inr (JObject decoded)"
      and "findById (users w) (rp_id decoded) = Some u"
    shows "fst (refreshToken E tok w) =
           (if (\<exists>t. passwordChangedAt u = Some t \<and> rp_iat decoded < t)
            then AppError ''User recently changed password! Please log in again.'' 401
            else Json 200 (Tokens_refreshed (SignInAccessToken E (uid u) ''5m'')
                                            (SignInRefreshToken E (uid u) ''3d'')))"
  using assms
  by (auto simp: refreshToken_def truthy_value_def claims_of_def changedPasswordAfter_def
           Let_def split: option.splits)

theorem refreshToken_freshness_witness:
  "jwt_verify_refresh demo_env (Some ''r1'') = Inr (JObject \<lparr> rp_id = 1, rp_iat = 50 \<rparr>) \<and>
   findById (users demo_world) 1 = Some ada \<and>
   fst (refreshToken demo_env (Some ''r1'') demo_world) =
     AppError ''User recently changed password! Please log in again.'' 401 \<and>
   jwt_verify_refresh demo_env (Some ''r2'') = Inr (JObject \<lparr> rp_id = 2, rp_iat = 50 \<rparr>) \<and>
   findById (users demo_world) 2 = Some bob \<and>
   fst (refreshToken demo_env (Some ''r2'') demo_world) =
     Json 200 (Tokens_refreshed ''a.5m'' ''r.3d'')"
proof -
  have v1: "jwt_verify_refresh demo_env (Some ''r1'') =
              Inr (JObject \<lparr> rp_id = 1, rp_iat = 50 \<rparr>)"
    by (simp add: demo_env_def)
  have f1: "findById (users demo_world) (rp_id \<lparr> rp_id = 1, rp_iat = 50 \<rparr>) = Some ada"
    by (simp add: findById_def demo_defs)
  have v2: "jwt_verify_refresh demo_env (Some ''r2'') =
              Inr (JObject \<lparr> rp_id = 2, rp_iat = 50 \<rparr>)"
    by (simp add: demo_env_def)
  have f2: "findById (users demo_world) (rp_id \<lparr> rp_id = 2, rp_iat = 50 \<rparr>) = Some bob"
    by (simp add: findById_def demo_defs)
  have r1: "fst (refreshToken demo_env (Some ''r1'') demo_world) =
              AppError ''User recently changed password! Please log in again.'' 401"
    using refreshToken_freshness [OF v1 f1] by (simp add: ada_def)
  have r2: "fst (refreshToken demo_env (Some ''r2'') demo_world) =
              Json 200 (Tokens_refreshed ''a.5m'' ''r.3d'')"
    using refreshToken_freshness [OF v2 f2] by (simp add: bob_def demo_env_def)
  from v1 f1 r1 v2 f2 r2 show ?thesis by simp
qed

text \<open>
  C10. The answer \<^verbatim>\<open>Could not refresh token\<close> (400) is produced exactly when the
  verification returns, without throwing, a falsy payload (\<^verbatim>\<open>false\<close>, \<^verbatim>\<open>0\<close> or the
  empty string). When the verification throws, or returns a truthy payload such as any
  payload object, that answer is never produced.
\<close>

theorem refreshToken_could_not_refresh_iff:
  "fst (refreshToken E tok w) = AppError ''Could not refresh token'' 400 \<longleftrightarrow>
   (\<exists>d. jwt_verify_refresh E tok = Inr d \<and> \<not> truthy_value d)"
proof (cases "jwt_verify_refresh E tok")
  case (Inl ex)
  then show ?thesis by (simp add: refreshToken_def)
next
  case (Inr d)
  show ?thesis
  proof (cases "truthy_value d")
    case True
    with Inr show ?thesis
      by (simp add: refreshToken_def Let_def split: option.splits)
  next
    case False
    with Inr show ?thesis by (simp add: refreshToken_def)
  qed
qed

theorem refreshToken_could_not_refresh_iff_witness:
  "jwt_verify_refresh demo_env (Some ''r2'') = Inr (JObject \<lparr> rp_id = 2, rp_iat = 50 \<rparr>) \<and>
   truthy_value (JObject \<lparr> rp_id = 2, rp_iat = 50 \<rparr>) \<and>
   fst (refreshToken demo_env (Some ''r2'') demo_world) \<noteq>
     AppError ''Could not refresh token'' 400 \<and>
   jwt_verify_refresh demo_env None = Inl JsonWebTokenError \<and>
   fst (refreshToken demo_env None demo_world) \<noteq> AppError ''Could not refresh token'' 400"
proof -
  have v: "jwt_verify_refresh demo_env (Some ''r2'') =
             Inr (JObject \<lparr> rp_id = 2, rp_iat = 50 \<rparr>)"
    by (simp add: demo_env_def)
  have t: "truthy_value (JObject \<lparr> rp_id = 2, rp_iat = 50 \<rparr>)"
    by (simp add: truthy_value_def)
  have n: "jwt_verify_refresh demo_env None = Inl JsonWebTokenError"
    by (simp add: demo_env_def)
  have a: "fst (refreshToken demo_env (Some ''r2'') demo_world) \<noteq>
             AppError ''Could not refresh token'' 400"
    using refreshToken_could_not_refresh_iff [of demo_env "Some ''r2''" demo_world] v t
    by simp
  have b: "fst (refreshToken demo_env None demo_world) \<noteq>
             AppError ''Could not refresh token'' 400"
    using refreshToken_could_not_refresh_iff [of demo_env None demo_world] n
    by simp
  from v t n a b show ?thesis by simp
qed

text \<open>
  A refresh token whose signed payload is \<^verbatim>\<open>false\<close> verifies, and the decoded value is
  falsy: the answer is \<^verbatim>\<open>Could not refresh token\<close> (400).
\<close>

theorem refreshToken_falsy_payload_counterexample:
  "fst (refreshToken demo_env (Some ''f0'') demo_world) =
     AppError ''Could not refresh token'' 400"
  by (simp add: refreshToken_def demo_env_def truthy_value_def)

section \<open>Logging in\<close>

text \<open>
  C4. For one email and password, the answer of \<open>login\<close> on a store without an account
  of that email equals its answer on a store where the account exists and the password
  comparison returns false; when both fields are present that answer is
  \<^verbatim>\<open>Incorrect email or password\<close> (401).
\<close>

theorem login_no_existence_leak:
  assumes "findOne_email (users w1) (Some e) = None"
      and "findOne_email (users w2) (Some e) = Some u"
      and "correctPassword E p (password u) = Inr False"
    shows "fst (login E \<lparr> lr_email = Some e, lr_password = Some p \<rparr> w1) =
           fst (login E \<lparr> lr_email = Some e, lr_password = Some p \<rparr> w2) \<and>
           (e \<noteq> [] \<and> p \<noteq> [] \<longrightarrow>
              fst (login E \<lparr> lr_email = Some e, lr_password = Some p \<rparr> w2) =
              AppError ''Incorrect email or password'' 401)"
  using assms by (simp add: login_def truthy_def tmpl_def)

theorem login_no_existence_leak_witness:
  "findOne_email (users \<lparr> users = [ada], trace = [] \<rparr>) (Some ''b@x.com'') = None \<and>
   findOne_email (users demo_world) (Some ''b@x.com'') = Some bob \<and>
   correctPassword demo_env ''wrong'' (password bob) = Inr False \<and>
   fst (login demo_env \<lparr> lr_email = Some ''b@x.com'', lr_password = Some ''wrong'' \<rparr>
          \<lparr> users = [ada], trace = [] \<rparr>) =
     AppError ''Incorrect email or password'' 401 \<and>
   fst (login demo_env \<lparr> lr_email = Some ''b@x.com'', lr_password = Some ''wrong'' \<rparr>
          demo_world) =
     AppError ''Incorrect email or password'' 401"
proof -
  have a: "findOne_email (users \<lparr> users = [ada], trace = [] \<rparr>) (Some ''b@x.com'') = None"
    by (simp add: findOne_email_def ada_def)
  have b: "findOne_email (users demo_world) (Some ''b@x.com'') = Some bob"
    by (simp add: findOne_email_def demo_defs)
  have c: "correctPassword demo_env ''wrong'' (password bob) = Inr False"
    by (simp add: demo_env_def bob_def)
  from login_no_existence_leak [OF a b c] a b c show ?thesis by simp
qed

section \<open>Requesting activation\<close>

text \<open>
  C6. When the email of the registration request already belongs to an account of the
  store, \<open>verifyAccount\<close> answers \<^verbatim>\<open>Email Already exists\<close> (400) and returns the world
  as it received it: the log gains no signing and no mail event, so the check comes
  before any token is signed and any activation mail is sent.
\<close>

theorem verifyAccount_duplicate_email:
  assumes "ar_email req = Some e" and "e \<in> email ` set (users w)"
  shows "verifyAccount E rnd req w = (AppError ''Email Already exists'' 400, w) \<and>
         filter is_sign_or_mail (trace (snd (verifyAccount E rnd req w))) =
         filter is_sign_or_mail (trace w)"
proof -
  from assms(2) obtain a where "findOne_email (users w) (Some e) = Some a"
    using findOne_email_member by blast
  with assms(1) have "findOne_email (users w) (ar_email req) = Some a" by simp
  then show ?thesis by (simp add: verifyAccount_def)
qed

theorem verifyAccount_duplicate_email_witness:
  "ar_email demo_activate_req = Some ''a@x.com'' \<and>
   ''a@x.com'' \<in> email ` set (users demo_world) \<and>
   verifyAccount demo_env ''N1'' demo_activate_req demo_world =
     (AppError ''Email Already exists'' 400, demo_world)"
proof -
  have a: "ar_email demo_activate_req = Some ''a@x.com''"
    by (simp add: demo_activate_req_def)
  have b: "''a@x.com'' \<in> email ` set (users demo_world)"
    by (simp add: demo_defs)
  from verifyAccount_duplicate_email [OF a b, of demo_env "''N1''"] a b
  show ?thesis by blast
qed

text \<open>
  C8. \<open>verifyAccount\<close> persists nothing: whatever the request, the user collection after
  the call is the collection before it, and the log gains no create and no save event.
\<close>

theorem verifyAccount_persists_nothing:
  "users (snd (verifyAccount E rnd req w)) = users w \<and>
   filter is_persist (trace (snd (verifyAccount E rnd req w))) = filter is_persist (trace w)"
  by (simp add: verifyAccount_def createVerificationToken_def log_event_def is_persist_def
        Let_def split: option.splits)

section \<open>Changing a password\<close>

text \<open>
  C7. The guard of \<open>updatePassword\<close> that answers \<^verbatim>\<open>Invalid user\<close> compares the
  loaded password with the string \<^verbatim>\<open>"undefined"\<close>, which an absent field never equals.
  With all three request fields present and an account whose stored password is absent,
  \<open>updatePassword\<close> does not answer \<^verbatim>\<open>Invalid user\<close> (400): it goes on to the
  comparison of the old password against the absent hash, and an exception of that
  comparison is what the caller receives.
\<close>

theorem updatePassword_absent_password_guard_skipped:
  assumes "truthy (ur_oldPassword req)" and "truthy (ur_newPassword req)"
      and "truthy (ur_passwordConfirm req)"
      and "findById (users w) (ur_user_id req) = Some u"
      and "password u = None"
    shows "fst (updatePassword E now req w) \<noteq> AppError ''Invalid user'' 400 \<and>
           (\<forall>ex. correctPassword E (tmpl (ur_oldPassword req)) None = Inl ex \<longrightarrow>
                 updatePassword E now req w = (Thrown ex, w))"
  using assms
  by (auto simp: updatePassword_def optional_password_def Let_def split: sum.splits)

theorem updatePassword_absent_password_guard_skipped_witness:
  "truthy (ur_oldPassword (demo_update_req 3)) \<and> truthy (ur_newPassword (demo_update_req 3)) \<and>
   truthy (ur_passwordConfirm (demo_update_req 3)) \<and>
   findById (users eve_world) (ur_user_id (demo_update_req 3)) = Some eve \<and>
   password eve = None \<and>
   updatePassword demo_env 7 (demo_update_req 3) eve_world = (Thrown BcryptError, eve_world)"
proof -
  have t: "truthy (ur_oldPassword (demo_update_req 3))"
    "truthy (ur_newPassword (demo_update_req 3))"
    "truthy (ur_passwordConfirm (demo_update_req 3))"
    by (simp_all add: demo_update_req_def truthy_def)
  have f: "findById (users eve_world) (ur_user_id (demo_update_req 3)) = Some eve"
    by (simp add: findById_def demo_update_req_def demo_defs)
  have p: "password eve = None" by (simp add: eve_def)
  have c: "correctPassword demo_env (tmpl (ur_oldPassword (demo_update_req 3))) None =
             Inl BcryptError"
    by (simp add: demo_env_def)
  from updatePassword_absent_password_guard_skipped [OF t f p, of demo_env 7] c t f p
  show ?thesis by blast
qed

text \<open>
  C9. When \<^verbatim>\<open>findById\<close> finds no account for the authenticated id, the guard does not
  fire (the optional chain yields \<^verbatim>\<open>undefined\<close>, not the string it is compared with)
  and the call of \<^verbatim>\<open>correctPassword\<close> on the missing document throws a TypeError,
  which reaches the caller in place of a typed error; the world is unchanged.
\<close>

theorem updatePassword_missing_account_throws:
  assumes "truthy (ur_oldPassword req)" and "truthy (ur_newPassword req)"
      and "truthy (ur_passwordConfirm req)"
      and "findById (users w) (ur_user_id req) = None"
    shows "updatePassword E now req w = (Thrown TypeError, w)"
  using assms by (simp add: updatePassword_def optional_password_def)

theorem updatePassword_missing_account_throws_witness:
  "truthy (ur_oldPassword (demo_update_req 9)) \<and> truthy (ur_newPassword (demo_update_req 9)) \<and>
   truthy (ur_passwordConfirm (demo_update_req 9)) \<and>
   findById (users eve_world) (ur_user_id (demo_update_req 9)) = None \<and>
   updatePassword demo_env 7 (demo_update_req 9) eve_world = (Thrown TypeError, eve_world)"
proof -
  have t: "truthy (ur_oldPassword (demo_update_req 9))"
    "truthy (ur_newPassword (demo_update_req 9))"
    "truthy (ur_passwordConfirm (demo_update_req 9))"
    by (simp_all add: demo_update_req_def truthy_def)
  have f: "findById (users eve_world) (ur_user_id (demo_update_req 9)) = None"
    by (simp add: findById_def demo_update_req_def demo_defs)
  from updatePassword_missing_account_throws [OF t f, of demo_env 7] t f
  show ?thesis by blast
qed

section \<open>Forgetting a password\<close>

text \<open>
  C5. When the account is found and the delivery of the reset mail fails, after the hash
  and the expiry were saved, \<open>forgotPassword\<close> clears both fields, saves again and
  answers \<^verbatim>\<open>There was an error sending the email. Try again later!\<close> (500): the final
  collection holds the account with both reset fields absent, every other account is
  untouched, and the log gains exactly the two saves. Account ids are distinct in the
  store.
\<close>

theorem forgotPassword_delivery_rollback:
  assumes d: "distinct (map uid (users w))"
      and f: "findOne_email (users w) (fr_email req) = Some user"
      and m: "\<not> sendPasswordReset E
                 (user \<lparr> passwordResetToken := Some (sha256_hex E rnd),
                         passwordResetExpires := Some (now + resetTokenLifetime E) \<rparr>)
                 \<lparr> md_user_name = Some (name user), md_token = rnd,
                   md_resetURL = fr_protocol req @ ''://'' @ tmpl (fr_host req) @
                                 ''/api/v1/users/reset-password/'' @ rnd \<rparr>"
    shows "forgotPassword E rnd now req w =
           (AppError ''There was an error sending the email. Try again later!'' 500,
            \<lparr> users = map (\<lambda>a. if uid a = uid user
                               then user \<lparr> passwordResetToken := None,
                                          passwordResetExpires := None \<rparr>
                               else a) (users w),
              trace = trace w @
                [Saved (user \<lparr> passwordResetToken := Some (sha256_hex E rnd),
                               passwordResetExpires := Some (now + resetTokenLifetime E) \<rparr>),
                 Saved (user \<lparr> passwordResetToken := None,
                               passwordResetExpires := None \<rparr>)] \<rparr>)"
proof -
  let ?u1 = "user \<lparr> passwordResetToken := Some (sha256_hex E rnd),
                    passwordResetExpires := Some (now + resetTokenLifetime E) \<rparr>"
  let ?u2 = "user \<lparr> passwordResetToken := None, passwordResetExpires := None \<rparr>"
  let ?us1 = "map (\<lambda>a. if uid a = uid user then ?u1 else a) (users w)"
  from d f have byid: "findById (users w) (uid user) = Some user"
    unfolding findOne_email_def findById_def by (rule find_distinct_uid)
  then have nm1: "\<not> password_modified (users w) ?u1"
    by (simp add: password_modified_def)
  have s1: "save E now False ?u1 (users w) = Inr (?u1, ?us1)"
    using nm1 by (simp add: save_def Let_def)
  from byid have byid1: "findById ?us1 (uid user) = Some ?u1"
    unfolding findById_def by (rule find_uid_replace) simp
  have nm2: "\<not> password_modified ?us1 ?u2"
    using byid1 by (simp add: password_modified_def)
  have s2: "save E now False ?u2 ?us1 =
            Inr (?u2, map (\<lambda>a. if uid a = uid user then ?u2 else a) (users w))"
    using nm2 replace_twice [of ?u1 "uid user" ?u2 "users w"] by (simp add: save_def Let_def)
  show ?thesis
    using f m s1 s2
    by (simp add: forgotPassword_def createPasswordResetToken_def log_event_def)
qed

theorem forgotPassword_delivery_rollback_witness:
  "distinct (map uid (users demo_world)) \<and>
   findOne_email (users demo_world) (fr_email demo_forgot_req) = Some bob \<and>
   \<not> sendPasswordReset demo_env
       (bob \<lparr> passwordResetToken := Some (sha256_hex demo_env ''RAW''),
              passwordResetExpires := Some (500 + resetTokenLifetime demo_env) \<rparr>)
       \<lparr> md_user_name = Some (name bob), md_token = ''RAW'',
         md_resetURL = fr_protocol demo_forgot_req @ ''://'' @ tmpl (fr_host demo_forgot_req) @
                       ''/api/v1/users/reset-password/'' @ ''RAW'' \<rparr> \<and>
   forgotPassword demo_env ''RAW'' 500 demo_forgot_req demo_world =
     (AppError ''There was an error sending the email. Try again later!'' 500,
      \<lparr> users = [ada, bob],
        trace = [Saved (bob \<lparr> passwordResetToken := Some ''hRAW'',
                              passwordResetExpires := Some 1100 \<rparr>),
                 Saved bob] \<rparr>)"
proof -
  have d: "distinct (map uid (users demo_world))"
    by (simp add: demo_defs)
  have f: "findOne_email (users demo_world) (fr_email demo_forgot_req) = Some bob"
    by (simp add: findOne_email_def demo_forgot_req_def demo_defs)
  have m: "\<not> sendPasswordReset demo_env
       (bob \<lparr> passwordResetToken := Some (sha256_hex demo_env ''RAW''),
              passwordResetExpires := Some (500 + resetTokenLifetime demo_env) \<rparr>)
       \<lparr> md_user_name = Some (name bob), md_token = ''RAW'',
         md_resetURL = fr_protocol demo_forgot_req @ ''://'' @ tmpl (fr_host demo_forgot_req) @
                       ''/api/v1/users/reset-password/'' @ ''RAW'' \<rparr>"
    by (simp add: demo_env_def bob_def)
  have r: "forgotPassword demo_env ''RAW'' 500 demo_forgot_req demo_world =
     (AppError ''There was an error sending the email. Try again later!'' 500,
      \<lparr> users = [ada, bob],
        trace = [Saved (bob \<lparr> passwordResetToken := Some ''hRAW'',
                              passwordResetExpires := Some 1100 \<rparr>),
                 Saved bob] \<rparr>)"
    using forgotPassword_delivery_rollback [OF d f m]
    by (simp add: demo_defs)
  from d f m r show ?thesis by blast
qed

end
